theory Spec2Isabelle
  imports Main "HOL-Library.Multiset"
begin

section \<open>Values shared by the two controllers\<close>

text \<open>
  An ObjectId is identified with the text its \<^verbatim>\<open>toString()\<close> gives, so the
  comparison \<^verbatim>\<open>a.toString() !== b.toString()\<close> of the controllers is inequality of
  identifiers.
\<close>

type_synonym oid = string

text \<open>
  What a handler can throw. \<open>ApiError\<close> is the typed HTTP-status exception of the
  controllers (status code and message); \<open>TypeError\<close> and \<open>ReferenceError\<close> are the
  language's own exceptions (a property read on \<^verbatim>\<open>undefined\<close>, an unbound
  identifier), their messages written without quotation marks; \<open>LibraryError\<close> is
  anything a called library throws. A failure of the database itself is not part of
  the model: a query returns what the collection holds.
\<close>

datatype error =
    ApiError nat string
  | TypeError string
  | ReferenceError string
  | LibraryError string

fun message :: "error \<Rightarrow> string" where
  "message (ApiError code msg) = msg"
| "message (TypeError msg) = msg"
| "message (ReferenceError msg) = msg"
| "message (LibraryError msg) = msg"

text \<open>\<^verbatim>\<open>new ApiResponse(statusCode, data, message)\<close>, kept as the three arguments.\<close>

datatype 'a ApiResponse = ApiResponse nat 'a string

record cookie_options =
  httpOnly :: bool
  secure :: bool

text \<open>
  \<^verbatim>\<open>res.cookie(name, value, options)\<close> and \<^verbatim>\<open>res.clearCookie(name, options)\<close>.
  The value is optional because a handler can pass \<^verbatim>\<open>undefined\<close>.
\<close>

datatype cookie_op =
    SetCookie string "string option" cookie_options
  | ClearCookie string cookie_options

text \<open>What a handler has written on \<^verbatim>\<open>res\<close> when it returns.\<close>

record 'a response =
  status :: nat
  cookie_ops :: "cookie_op list"
  json :: "'a ApiResponse"

section \<open>Documents and collections\<close>

text \<open>
  The document shapes are defined by the schema layer, outside these controllers; a
  record holds the fields the controllers read or write. A field that a controller
  can store as \<^verbatim>\<open>undefined\<close> is optional.
\<close>

record user_doc =
  user_id :: oid
  username :: string
  email :: "string option"
  fullName :: "string option"
  avatar :: string
  coverImage :: string
  password :: "string option"
  refreshToken :: "string option"

record video_doc =
  video_id :: oid

record comment_doc =
  comment_id :: oid
  content :: string
  video :: oid
  owner :: "oid option"
  createdAt :: nat

record like_doc =
  like_comment :: "oid option"
  likedBy :: oid

text \<open>
  A subscription is kept as its fields by name: the controllers address its fields
  only through field-name strings inside aggregation stages.
\<close>

type_synonym subscription_doc = "(string \<times> oid) list"

text \<open>
  The state the handlers act on: the five collections, each in its natural order, and
  the log of the local paths handed to the image host (\<^verbatim>\<open>uploadOnCloudinary\<close>).
\<close>

record store =
  users :: "user_doc list"
  videos :: "video_doc list"
  comments :: "comment_doc list"
  likes :: "like_doc list"
  subscriptions :: "subscription_doc list"
  uploaded :: "string option list"

section \<open>The comment controller\<close>

definition Video_findById :: "oid \<Rightarrow> video_doc list \<Rightarrow> video_doc option" where
  "Video_findById i vs = find (\<lambda>v. video_id v = i) vs"

definition Comment_findById :: "oid \<Rightarrow> comment_doc list \<Rightarrow> comment_doc option" where
  "Comment_findById i cs = find (\<lambda>c. comment_id c = i) cs"

text \<open>
  \<^verbatim>\<open>Comment.findByIdAndUpdate(id, {$set: {content}}, {new: true})\<close>: the first
  document with that identifier gets the new content; the updated document is
  returned, or nothing when there is none.
\<close>

fun Comment_findByIdAndUpdate ::
  "oid \<Rightarrow> string \<Rightarrow> comment_doc list \<Rightarrow> comment_doc option \<times> comment_doc list" where
  "Comment_findByIdAndUpdate i v [] = (None, [])"
| "Comment_findByIdAndUpdate i v (c # cs) =
     (if comment_id c = i then (Some (c\<lparr>content := v\<rparr>), c\<lparr>content := v\<rparr> # cs)
      else (case Comment_findByIdAndUpdate i v cs of (r, cs') \<Rightarrow> (r, c # cs')))"

text \<open>\<^verbatim>\<open>Comment.findByIdAndDelete(id)\<close>: the first document with that identifier goes.\<close>

fun Comment_findByIdAndDelete :: "oid \<Rightarrow> comment_doc list \<Rightarrow> comment_doc list" where
  "Comment_findByIdAndDelete i [] = []"
| "Comment_findByIdAndDelete i (c # cs) =
     (if comment_id c = i then cs else c # Comment_findByIdAndDelete i cs)"

text \<open>\<^verbatim>\<open>Comment.create(doc)\<close>: the document is stored and returned.\<close>

definition Comment_create ::
  "comment_doc \<Rightarrow> comment_doc list \<Rightarrow> comment_doc option \<times> comment_doc list" where
  "Comment_create doc cs = (Some doc, cs @ [doc])"

text \<open>
  \<^verbatim>\<open>addComment\<close>. \<open>content_field\<close> is \<^verbatim>\<open>req.body.content\<close> (absent or a string),
  \<open>user\<close> is \<^verbatim>\<open>req.user\<close>. The identifier and the creation time of the new document
  are given by the database: \<open>new_id\<close> and \<open>now\<close>.
\<close>

definition addComment ::
  "oid \<Rightarrow> nat \<Rightarrow> oid \<Rightarrow> string option \<Rightarrow> user_doc option \<Rightarrow> store
     \<Rightarrow> (error + comment_doc response) \<times> store" where
  "addComment new_id now videoId content_field user s =
     (case content_field of
        None \<Rightarrow> (Inl (ApiError 400 ''Content is required''), s)
      | Some c \<Rightarrow>
          if c = [] then (Inl (ApiError 400 ''Content is required''), s)
          else
            (case Video_findById videoId (videos s) of
               None \<Rightarrow> (Inl (ApiError 404 ''Video not found''), s)
             | Some v \<Rightarrow>
                 (case Comment_create
                         \<lparr>comment_id = new_id, content = c, video = videoId,
                          owner = map_option user_id user, createdAt = now\<rparr> (comments s) of
                    (None, cs') \<Rightarrow>
                      (Inl (ApiError 500 ''Failed to add comment please try again''),
                       s\<lparr>comments := cs'\<rparr>)
                  | (Some comment, cs') \<Rightarrow>
                      (Inr \<lparr>status = 201, cookie_ops = [],
                           json = ApiResponse 201 comment ''Comment added successfully''\<rparr>,
                       s\<lparr>comments := cs'\<rparr>))))"

text \<open>
  \<^verbatim>\<open>updateComment\<close>. \<^verbatim>\<open>comment?.owner.toString()\<close> throws a TypeError on a comment
  without owner; \<^verbatim>\<open>req.user?._id.toString()\<close> is \<^verbatim>\<open>undefined\<close> without a user.
\<close>

definition updateComment ::
  "oid \<Rightarrow> string option \<Rightarrow> user_doc option \<Rightarrow> store
     \<Rightarrow> (error + comment_doc response) \<times> store" where
  "updateComment commentId content_field user s =
     (case content_field of
        None \<Rightarrow> (Inl (ApiError 400 ''content is required''), s)
      | Some c \<Rightarrow>
          if c = [] then (Inl (ApiError 400 ''content is required''), s)
          else
            (case Comment_findById commentId (comments s) of
               None \<Rightarrow> (Inl (ApiError 404 ''Comment not found''), s)
             | Some comment \<Rightarrow>
                 (case owner comment of
                    None \<Rightarrow>
                      (Inl (TypeError ''Cannot read properties of undefined (reading toString)''), s)
                  | Some ow \<Rightarrow>
                      if Some ow \<noteq> map_option user_id user
                      then (Inl (ApiError 400 ''only comment owner can edit their comment''), s)
                      else
                        (case Comment_findByIdAndUpdate (comment_id comment) c (comments s) of
                           (None, cs') \<Rightarrow>
                             (Inl (ApiError 500 ''Failed to edit comment please try again''),
                              s\<lparr>comments := cs'\<rparr>)
                         | (Some updatedComment, cs') \<Rightarrow>
                             (Inr \<lparr>status = 200, cookie_ops = [],
                                  json = ApiResponse 200 updatedComment
                                           ''Comment edited successfully''\<rparr>,
                              s\<lparr>comments := cs'\<rparr>)))))"

text \<open>
  \<^verbatim>\<open>deleteComment\<close>. The like clean-up \<^verbatim>\<open>Like.deleteMany({comment, likedBy})\<close> is
  a parameter, given the comment identifier, \<^verbatim>\<open>req.user\<close> and the stored likes: it
  returns the likes that remain, or throws. The module does not import \<^verbatim>\<open>Like\<close>, so
  as the file stands the call throws a ReferenceError; whatever is thrown is caught
  and logged. The payload is \<^verbatim>\<open>{ commentId }\<close>.
\<close>

definition deleteComment ::
  "(oid \<Rightarrow> user_doc option \<Rightarrow> like_doc list \<Rightarrow> error + like_doc list)
     \<Rightarrow> oid \<Rightarrow> user_doc option \<Rightarrow> store \<Rightarrow> (error + oid response) \<times> store" where
  "deleteComment Like_deleteMany commentId user s =
     (case Comment_findById commentId (comments s) of
        None \<Rightarrow> (Inl (ApiError 404 ''Comment not found''), s)
      | Some comment \<Rightarrow>
          (case owner comment of
             None \<Rightarrow>
               (Inl (TypeError ''Cannot read properties of undefined (reading toString)''), s)
           | Some ow \<Rightarrow>
               if Some ow \<noteq> map_option user_id user
               then (Inl (ApiError 400 ''only comment owner can delete their comment''), s)
               else
                 let s1 = s\<lparr>comments := Comment_findByIdAndDelete commentId (comments s)\<rparr>;
                     s2 = (case Like_deleteMany commentId user (likes s1) of
                             Inl e \<Rightarrow> s1
                           | Inr remaining \<Rightarrow> s1\<lparr>likes := remaining\<rparr>)
                 in (Inr \<lparr>status = 200, cookie_ops = [],
                          json = ApiResponse 200 commentId ''Comment deleted successfully''\<rparr>,
                     s2)))"

subsection \<open>Listing the comments of a video\<close>

text \<open>
  \<^verbatim>\<open>parseInt(text, 10)\<close>: leading white space is skipped, a sign is read, then the
  longest run of decimal digits; without a digit the result is NaN (\<open>None\<close>).
  Characters are bytes here, so the white space is the ASCII white space, and the
  result is an unbounded integer where the language has a double.
\<close>

definition is_space :: "char \<Rightarrow> bool" where
  "is_space c = (c \<in> set [CHR '' '', CHR 0x09, CHR 0x0A, CHR 0x0B, CHR 0x0C, CHR 0x0D])"

definition is_digit :: "char \<Rightarrow> bool" where
  "is_digit c = (48 \<le> (of_char c :: nat) \<and> (of_char c :: nat) \<le> 57)"

definition digits_value :: "string \<Rightarrow> nat" where
  "digits_value ds = foldl (\<lambda>a c. 10 * a + ((of_char c :: nat) - 48)) 0 ds"

definition parseInt :: "string \<Rightarrow> int option" where
  "parseInt text =
     (let t = dropWhile is_space text;
          negative = (case t of [] \<Rightarrow> False | c # r \<Rightarrow> c = CHR ''-'');
          unsigned = (case t of [] \<Rightarrow> []
                      | c # r \<Rightarrow> if c = CHR ''-'' \<or> c = CHR ''+'' then r else t);
          ds = takeWhile is_digit unsigned
      in if ds = [] then None
         else Some (if negative then - int (digits_value ds) else int (digits_value ds)))"

text \<open>
  A query parameter with its default: \<^verbatim>\<open>const { page = 1, limit = 10 } = req.query\<close>
  followed by \<^verbatim>\<open>parseInt(page, 10)\<close>. An absent parameter takes the default number.
\<close>

definition parse_query :: "int \<Rightarrow> string option \<Rightarrow> int option" where
  "parse_query dflt q = (case q of None \<Rightarrow> Some dflt | Some text \<Rightarrow> parseInt text)"

record paginate_options =
  page :: "int option"
  limit :: "int option"

text \<open>The documents between the stages of the aggregation pipeline.\<close>

record with_owner =
  wo_comment :: comment_doc
  wo_owner :: "user_doc list"

record with_likes =
  wl_comment :: comment_doc
  wl_owner :: "user_doc list"
  wl_likes :: "like_doc list"

record with_fields =
  wf_comment :: comment_doc
  wf_owner :: "user_doc option"
  wf_likes :: "like_doc list"
  wf_likesCount :: nat
  wf_isLiked :: bool

text \<open>
  The projection keeps of the owner \<^verbatim>\<open>username\<close>, \<^verbatim>\<open>fullName\<close> and
  \<^verbatim>\<open>avatar.url\<close>; the avatar is stored as a string, which has no \<^verbatim>\<open>url\<close> below it.
\<close>

record owner_view =
  ov_username :: string
  ov_fullName :: "string option"

record listed_comment =
  lc_id :: oid
  lc_content :: string
  lc_createdAt :: nat
  lc_likesCount :: nat
  lc_owner :: "owner_view option"
  lc_isLiked :: bool

definition match_video :: "oid \<Rightarrow> comment_doc list \<Rightarrow> comment_doc list" where
  "match_video videoId cs = filter (\<lambda>c. video c = videoId) cs"

definition lookup_owner :: "user_doc list \<Rightarrow> comment_doc \<Rightarrow> with_owner" where
  "lookup_owner us c =
     \<lparr>wo_comment = c, wo_owner = filter (\<lambda>u. Some (user_id u) = owner c) us\<rparr>"

definition lookup_likes :: "like_doc list \<Rightarrow> with_owner \<Rightarrow> with_likes" where
  "lookup_likes ls d =
     \<lparr>wl_comment = wo_comment d, wl_owner = wo_owner d,
      wl_likes = filter (\<lambda>l. like_comment l = Some (comment_id (wo_comment d))) ls\<rparr>"

text \<open>\<^verbatim>\<open>$in: [req.user?._id, "$likes.likedBy"]\<close>; without a user nothing matches.\<close>

definition addFields :: "user_doc option \<Rightarrow> with_likes \<Rightarrow> with_fields" where
  "addFields user d =
     \<lparr>wf_comment = wl_comment d,
      wf_owner = (case wl_owner d of [] \<Rightarrow> None | u # us \<Rightarrow> Some u),
      wf_likes = wl_likes d,
      wf_likesCount = length (wl_likes d),
      wf_isLiked = (case user of None \<Rightarrow> False
                    | Some u \<Rightarrow> user_id u \<in> set (map likedBy (wl_likes d)))\<rparr>"

text \<open>
  \<^verbatim>\<open>$sort: { createdAt: -1 }\<close>: newest first. Documents of equal creation time
  keep the order they arrive in; the database promises no order among them.
\<close>

definition sort_createdAt_desc :: "with_fields list \<Rightarrow> with_fields list" where
  "sort_createdAt_desc ds = sort_key (\<lambda>d. - int (createdAt (wf_comment d))) ds"

definition project :: "with_fields \<Rightarrow> listed_comment" where
  "project d =
     \<lparr>lc_id = comment_id (wf_comment d),
      lc_content = content (wf_comment d),
      lc_createdAt = createdAt (wf_comment d),
      lc_likesCount = wf_likesCount d,
      lc_owner = map_option (\<lambda>u. \<lparr>ov_username = username u, ov_fullName = fullName u\<rparr>)
                   (wf_owner d),
      lc_isLiked = wf_isLiked d\<rparr>"

definition comments_pipeline ::
  "oid \<Rightarrow> user_doc option \<Rightarrow> store \<Rightarrow> listed_comment list" where
  "comments_pipeline videoId user s =
     map project
       (sort_createdAt_desc
          (map (addFields user)
             (map (lookup_likes (likes s))
                (map (lookup_owner (users s))
                   (match_video videoId (comments s))))))"

text \<open>
  \<^verbatim>\<open>getVideoComments\<close>. \<^verbatim>\<open>Comment.aggregatePaginate\<close> belongs to a plug-in of the
  schema layer and is a parameter: it receives the aggregate and the options
  \<^verbatim>\<open>{ page, limit }\<close> and returns the page object.
\<close>

definition getVideoComments ::
  "(listed_comment list \<Rightarrow> paginate_options \<Rightarrow> 'p)
     \<Rightarrow> oid \<Rightarrow> string option \<Rightarrow> string option \<Rightarrow> user_doc option \<Rightarrow> store
     \<Rightarrow> (error + 'p response) \<times> store" where
  "getVideoComments aggregatePaginate videoId page_q limit_q user s =
     (case Video_findById videoId (videos s) of
        None \<Rightarrow> (Inl (ApiError 404 ''Video not found''), s)
      | Some v \<Rightarrow>
          let comments_agg = comments_pipeline videoId user s;
              options = \<lparr>page = parse_query 1 page_q, limit = parse_query 10 limit_q\<rparr>;
              VideoComments = aggregatePaginate comments_agg options
          in (Inr \<lparr>status = 200, cookie_ops = [],
                   json = ApiResponse 200 VideoComments ''Comments fetched successfully''\<rparr>,
              s))"

text \<open>
  A page as skip and limit, to run the listing on examples: page \<open>p\<close> of size \<open>l\<close>
  holds the documents from position \<open>(p - 1) * l\<close> on, at most \<open>l\<close> of them;
  a missing or non-positive page is page 1, a missing or non-positive limit is 10.
\<close>

definition skip_limit :: "'a list \<Rightarrow> paginate_options \<Rightarrow> 'a list" where
  "skip_limit docs opts =
     (let p = (case page opts of None \<Rightarrow> 1 | Some n \<Rightarrow> if n < 1 then 1 else nat n);
          l = (case limit opts of None \<Rightarrow> 10 | Some n \<Rightarrow> if n < 1 then 10 else nat n)
      in take l (drop ((p - 1) * l) docs))"


section \<open>The user controller\<close>

text \<open>
  What the controller calls and does not define: the methods of a user document
  (\<^verbatim>\<open>generateAccessToken\<close>, \<^verbatim>\<open>generateRefreshToken\<close>, \<^verbatim>\<open>isPasswordCorrect\<close>),
  the upload helper \<^verbatim>\<open>uploadOnCloudinary\<close> (the url of the uploaded image, or
  \<^verbatim>\<open>null\<close>), and \<^verbatim>\<open>jwt.verify\<close> with the refresh secret, which returns the
  \<^verbatim>\<open>_id\<close> of the decoded payload or throws. The module does not import \<^verbatim>\<open>jwt\<close>:
  as the file stands, the call throws a ReferenceError, one behaviour of the parameter.
\<close>

record upload_result =
  url :: string

record env =
  generateAccessToken :: "user_doc \<Rightarrow> string"
  generateRefreshToken :: "user_doc \<Rightarrow> string"
  isPasswordCorrect :: "user_doc \<Rightarrow> string option \<Rightarrow> bool"
  uploadOnCloudinary :: "string option \<Rightarrow> upload_result option"
  jwt_verify :: "string \<Rightarrow> error + oid option"

text \<open>A value that is \<^verbatim>\<open>undefined\<close> or the empty string is falsy.\<close>

definition falsy :: "string option \<Rightarrow> bool" where
  "falsy v = (case v of None \<Rightarrow> True | Some t \<Rightarrow> t = [])"

text \<open>\<^verbatim>\<open>a || b\<close> on such values.\<close>

definition js_or :: "string option \<Rightarrow> string option \<Rightarrow> string option" where
  "js_or a b = (if falsy a then b else a)"

text \<open>\<^verbatim>\<open>trim\<close>, on the ASCII white space.\<close>

definition trim :: "string \<Rightarrow> string" where
  "trim t = rev (dropWhile is_space (rev (dropWhile is_space t)))"

text \<open>\<^verbatim>\<open>toLowerCase\<close> on the ASCII letters.\<close>

definition toLowerCase :: "string \<Rightarrow> string" where
  "toLowerCase t =
     map (\<lambda>c. if 65 \<le> (of_char c :: nat) \<and> (of_char c :: nat) \<le> 90
              then char_of ((of_char c :: nat) + 32) else c) t"

text \<open>\<^verbatim>\<open>field?.trim() === ""\<close>\<close>

definition blank :: "string option \<Rightarrow> bool" where
  "blank field = (case field of None \<Rightarrow> False | Some t \<Rightarrow> trim t = [])"

text \<open>
  \<^verbatim>\<open>User.findOne({ $or: [{ username }, { email }] })\<close>: the first user whose username
  or whose email equals the given one.
\<close>

definition User_findOne :: "string option \<Rightarrow> string option \<Rightarrow> user_doc list \<Rightarrow> user_doc option" where
  "User_findOne username_field email_field us =
     find (\<lambda>u. Some (username u) = username_field \<or> email u = email_field) us"

definition User_findById :: "oid \<Rightarrow> user_doc list \<Rightarrow> user_doc option" where
  "User_findById i us = find (\<lambda>u. user_id u = i) us"

text \<open>\<^verbatim>\<open>.select("-password -refreshToken")\<close>\<close>

definition select_public :: "user_doc \<Rightarrow> user_doc" where
  "select_public u = u\<lparr>password := None, refreshToken := None\<rparr>"

text \<open>\<^verbatim>\<open>user.save()\<close>: the stored document with the identifier of \<open>doc\<close> becomes \<open>doc\<close>.\<close>

fun User_save :: "user_doc \<Rightarrow> user_doc list \<Rightarrow> user_doc list" where
  "User_save doc [] = []"
| "User_save doc (u # us) =
     (if user_id u = user_id doc then doc # us else u # User_save doc us)"

text \<open>The field \<^verbatim>\<open>refreshToken\<close> of the first user with that identifier takes the value.\<close>

fun User_set_refreshToken :: "oid \<Rightarrow> string \<Rightarrow> user_doc list \<Rightarrow> user_doc list" where
  "User_set_refreshToken i v [] = []"
| "User_set_refreshToken i v (u # us) =
     (if user_id u = i then u\<lparr>refreshToken := Some v\<rparr> # us
      else u # User_set_refreshToken i v us)"

text \<open>
  \<^verbatim>\<open>User.findByIdAndUpdate(id, { $set: { refreshToken: value } }, { new: true })\<close>.
  The ORM leaves a key whose value is \<^verbatim>\<open>undefined\<close> out of the update it sends: with
  \<^verbatim>\<open>undefined\<close> (\<open>None\<close>) the update is empty and nothing is written; with a string
  the field is set.
\<close>

definition User_findByIdAndUpdate_refreshToken ::
  "oid \<Rightarrow> string option \<Rightarrow> user_doc list \<Rightarrow> user_doc list" where
  "User_findByIdAndUpdate_refreshToken i v us =
     (case v of None \<Rightarrow> us | Some t \<Rightarrow> User_set_refreshToken i t us)"

text \<open>
  \<^verbatim>\<open>req.files?.NAME[0]?.path\<close>. Without \<^verbatim>\<open>req.files\<close> the chain stops at
  \<^verbatim>\<open>undefined\<close>; with files but no entry of that name, indexing \<^verbatim>\<open>undefined\<close>
  throws; an empty array gives \<^verbatim>\<open>undefined\<close>.
\<close>

record uploaded_file =
  path :: string

type_synonym files = "(string \<times> uploaded_file list) list"

definition first_path :: "files option \<Rightarrow> string \<Rightarrow> error + string option" where
  "first_path fs name =
     (case fs of
        None \<Rightarrow> Inr None
      | Some entries \<Rightarrow>
          (case map_of entries name of
             None \<Rightarrow> Inl (TypeError ''Cannot read properties of undefined (reading 0)'')
           | Some [] \<Rightarrow> Inr None
           | Some (f # rest) \<Rightarrow> Inr (Some (path f))))"

text \<open>
  \<^verbatim>\<open>registerUser\<close>. The four body fields are absent or strings; \<open>new_id\<close> is the
  identifier the database gives the created user.
\<close>

definition registerUser ::
  "env \<Rightarrow> oid \<Rightarrow> string option \<Rightarrow> string option \<Rightarrow> string option \<Rightarrow> string option
     \<Rightarrow> files option \<Rightarrow> store \<Rightarrow> (error + user_doc response) \<times> store" where
  "registerUser e new_id fullName_field email_field username_field password_field fs s =
     (if list_ex blank [fullName_field, email_field, username_field, password_field]
      then (Inl (ApiError 400 ''All fields are required''), s)
      else
        (case User_findOne username_field email_field (users s) of
           Some existingUser \<Rightarrow> (Inl (ApiError 409 ''User already exists''), s)
         | None \<Rightarrow>
             (case first_path fs ''avatar'' of
                Inl err \<Rightarrow> (Inl err, s)
              | Inr avatarLocalPath \<Rightarrow>
                  (case first_path fs ''coverImage'' of
                     Inl err \<Rightarrow> (Inl err, s)
                   | Inr coverImageLocalPath \<Rightarrow>
                       if falsy avatarLocalPath
                       then (Inl (ApiError 400 ''Avatar file is required''), s)
                       else
                         let avatar_up = uploadOnCloudinary e avatarLocalPath;
                             coverImage_up = uploadOnCloudinary e coverImageLocalPath;
                             s1 = s\<lparr>uploaded :=
                                       uploaded s @ [avatarLocalPath, coverImageLocalPath]\<rparr>
                         in
                           (case avatar_up of
                              None \<Rightarrow> (Inl (ApiError 400 ''Avatar file is required''), s1)
                            | Some av \<Rightarrow>
                                (case username_field of
                                   None \<Rightarrow>
                                     (Inl (TypeError
                                        ''Cannot read properties of undefined (reading toLowerCase)''),
                                      s1)
                                 | Some un \<Rightarrow>
                                     let user =
                                           \<lparr>user_id = new_id,
                                            username = toLowerCase un,
                                            email = email_field,
                                            fullName = fullName_field,
                                            avatar = url av,
                                            coverImage = (case coverImage_up of
                                                            None \<Rightarrow> []
                                                          | Some ci \<Rightarrow> url ci),
                                            password = password_field,
                                            refreshToken = None\<rparr>;
                                         s2 = s1\<lparr>users := users s1 @ [user]\<rparr>
                                     in
                                       (case User_findById (user_id user) (users s2) of
                                          None \<Rightarrow> (Inl (ApiError 500 ''User not created''), s2)
                                        | Some createdUser \<Rightarrow>
                                            (Inr \<lparr>status = 201, cookie_ops = [],
                                                 json = ApiResponse 200
                                                          (select_public createdUser)
                                                          ''User Registered Successfully''\<rparr>,
                                             s2))))))))"

text \<open>
  \<^verbatim>\<open>generateAccessAndRefreshTokens\<close>. The result is the object
  \<^verbatim>\<open>{accessToken, refreshToken}\<close>, kept as its properties by name. Whatever is
  thrown inside (a missing user makes the method call throw) becomes the 500 error.
\<close>

definition generateAccessAndRefreshTokens ::
  "env \<Rightarrow> oid \<Rightarrow> store \<Rightarrow> (error + (string \<times> string) list) \<times> store" where
  "generateAccessAndRefreshTokens e userId s =
     (case User_findById userId (users s) of
        None \<Rightarrow>
          (Inl (ApiError 500 ''Something went wrong while generating refresh access token''), s)
      | Some user \<Rightarrow>
          let accessToken = generateAccessToken e user;
              refreshToken_new = generateRefreshToken e user
          in (Inr [(''accessToken'', accessToken), (''refreshToken'', refreshToken_new)],
              s\<lparr>users := User_save (user\<lparr>refreshToken := Some refreshToken_new\<rparr>) (users s)\<rparr>))"

definition options :: cookie_options where
  "options = \<lparr>httpOnly = True, secure = True\<rparr>"

record login_data =
  ld_user :: "user_doc option"
  ld_accessToken :: "string option"
  ld_refreshToken :: "string option"

text \<open>\<^verbatim>\<open>loginUser\<close>. The tokens are read from the returned object by property name.\<close>

definition loginUser ::
  "env \<Rightarrow> string option \<Rightarrow> string option \<Rightarrow> string option \<Rightarrow> store
     \<Rightarrow> (error + login_data response) \<times> store" where
  "loginUser e email_field username_field password_field s =
     (if \<not> (\<not> falsy username_field \<or> \<not> falsy email_field)
      then (Inl (ApiError 400 ''Username or email is required''), s)
      else
        (case User_findOne username_field email_field (users s) of
           None \<Rightarrow> (Inl (ApiError 404 ''User not found''), s)
         | Some user \<Rightarrow>
             if \<not> isPasswordCorrect e user password_field
             then (Inl (ApiError 401 ''Invalid password''), s)
             else
               (case generateAccessAndRefreshTokens e (user_id user) s of
                  (Inl err, s1) \<Rightarrow> (Inl err, s1)
                | (Inr tokens, s1) \<Rightarrow>
                    let accessToken = map_of tokens ''accessToken'';
                        refreshToken_new = map_of tokens ''refreshToken'';
                        loggedInUser =
                          map_option select_public (User_findById (user_id user) (users s1))
                    in (Inr \<lparr>status = 200,
                             cookie_ops = [SetCookie ''accessToken'' accessToken options,
                                           SetCookie ''refreshToken'' refreshToken_new options],
                             json = ApiResponse 200
                                      \<lparr>ld_user = loggedInUser, ld_accessToken = accessToken,
                                       ld_refreshToken = refreshToken_new\<rparr>
                                      ''User Logged In Successfully''\<rparr>,
                        s1))))"

text \<open>
  \<^verbatim>\<open>logoutUser\<close>. \<^verbatim>\<open>req.user._id\<close> throws without a user. The update is
  \<^verbatim>\<open>{ $set: { refreshToken: undefined } }\<close>. The payload is \<^verbatim>\<open>{}\<close>.
\<close>

definition logoutUser :: "user_doc option \<Rightarrow> store \<Rightarrow> (error + unit response) \<times> store" where
  "logoutUser user s =
     (case user of
        None \<Rightarrow> (Inl (TypeError ''Cannot read properties of undefined (reading _id)''), s)
      | Some u \<Rightarrow>
          (Inr \<lparr>status = 200,
                cookie_ops = [ClearCookie ''accessToken'' options,
                              ClearCookie ''refreshToken'' options],
                json = ApiResponse 200 () ''User Logged Out Successfully''\<rparr>,
           s\<lparr>users := User_findByIdAndUpdate_refreshToken (user_id u) None (users s)\<rparr>))"

record refresh_data =
  rd_accessToken :: "string option"
  rd_refreshToken :: "string option"

text \<open>
  The body of the \<^verbatim>\<open>try\<close> block of \<^verbatim>\<open>refreshAccessToken\<close>. The tokens are read
  from the object \<^verbatim>\<open>generateAccessAndRefreshTokens\<close> returns under the names
  \<^verbatim>\<open>accessToken\<close> and \<^verbatim>\<open>newRefreshToken\<close>.
\<close>

definition refresh_try ::
  "env \<Rightarrow> string \<Rightarrow> store \<Rightarrow> (error + refresh_data response) \<times> store" where
  "refresh_try e incomingRefreshToken s =
     (case jwt_verify e incomingRefreshToken of
        Inl err \<Rightarrow> (Inl err, s)
      | Inr decoded_id \<Rightarrow>
          (case (case decoded_id of None \<Rightarrow> None | Some i \<Rightarrow> User_findById i (users s)) of
             None \<Rightarrow> (Inl (ApiError 401 ''Invalid refresh token''), s)
           | Some user \<Rightarrow>
               if Some incomingRefreshToken \<noteq> refreshToken user
               then (Inl (ApiError 401 ''Refresh token is expired or used''), s)
               else
                 (case generateAccessAndRefreshTokens e (user_id user) s of
                    (Inl err, s1) \<Rightarrow> (Inl err, s1)
                  | (Inr tokens, s1) \<Rightarrow>
                      let accessToken = map_of tokens ''accessToken'';
                          newRefreshToken = map_of tokens ''newRefreshToken''
                      in (Inr \<lparr>status = 200,
                               cookie_ops = [SetCookie ''accessToken'' accessToken options,
                                             SetCookie ''refreshToken'' newRefreshToken options],
                               json = ApiResponse 200
                                        \<lparr>rd_accessToken = accessToken,
                                         rd_refreshToken = newRefreshToken\<rparr>
                                        ''Access token refreshed successfully''\<rparr>,
                          s1))))"

text \<open>
  \<^verbatim>\<open>refreshAccessToken\<close>, given \<^verbatim>\<open>req.cookies.refreshToken\<close> and
  \<^verbatim>\<open>req.body.refreshToken\<close>. The \<^verbatim>\<open>catch\<close> turns whatever the block throws into
  a 401 error with the same message.
\<close>

definition refreshAccessToken ::
  "env \<Rightarrow> string option \<Rightarrow> string option \<Rightarrow> store
     \<Rightarrow> (error + refresh_data response) \<times> store" where
  "refreshAccessToken e cookie_token body_token s =
     (case js_or cookie_token body_token of
        None \<Rightarrow> (Inl (ApiError 401 ''Unauthorized request''), s)
      | Some incomingRefreshToken \<Rightarrow>
          if incomingRefreshToken = [] then (Inl (ApiError 401 ''Unauthorized request''), s)
          else
            (case refresh_try e incomingRefreshToken s of
               (Inl err, s1) \<Rightarrow>
                 (Inl (ApiError 401
                        (if message err = [] then ''Invalid refresh token'' else message err)),
                  s1)
             | (Inr r, s1) \<Rightarrow> (Inr r, s1)))"

subsection \<open>The channel profile\<close>

record channel_lookup =
  cl_user :: user_doc
  cl_subscribers :: "subscription_doc list"
  cl_subscribedTo :: "subscription_doc list"

record channel_profile =
  cp_id :: oid
  cp_fullName :: "string option"
  cp_username :: string
  cp_avatar :: string
  cp_coverImage :: string
  totalSubscribers :: nat
  totalSubscribedTo :: nat
  isSubscribed :: bool

text \<open>
  \<^verbatim>\<open>$lookup\<close> from the subscriptions with \<^verbatim>\<open>localField: "_id"\<close> and the given
  foreign field.
\<close>

definition lookup_subscriptions ::
  "string \<Rightarrow> subscription_doc list \<Rightarrow> user_doc \<Rightarrow> subscription_doc list" where
  "lookup_subscriptions foreignField subs u =
     filter (\<lambda>sub. map_of sub foreignField = Some (user_id u)) subs"

definition channel_lookups :: "subscription_doc list \<Rightarrow> user_doc \<Rightarrow> channel_lookup" where
  "channel_lookups subs u =
     \<lparr>cl_user = u,
      cl_subscribers = lookup_subscriptions ''channel'' subs u,
      cl_subscribedTo = lookup_subscriptions ''channel'' subs u\<rparr>"

text \<open>
  \<^verbatim>\<open>$addFields\<close> and \<^verbatim>\<open>$project\<close> in one step. The array
  \<^verbatim>\<open>"$subscribers.subsciber"\<close> holds the values of the field of that name.
\<close>

definition channel_fields :: "user_doc option \<Rightarrow> channel_lookup \<Rightarrow> channel_profile" where
  "channel_fields user d =
     \<lparr>cp_id = user_id (cl_user d),
      cp_fullName = fullName (cl_user d),
      cp_username = username (cl_user d),
      cp_avatar = avatar (cl_user d),
      cp_coverImage = coverImage (cl_user d),
      totalSubscribers = length (cl_subscribers d),
      totalSubscribedTo = length (cl_subscribedTo d),
      isSubscribed =
        (case user of None \<Rightarrow> False
         | Some u \<Rightarrow>
             user_id u \<in> set (List.map_filter (\<lambda>sub. map_of sub ''subsciber'')
                                (cl_subscribers d)))\<rparr>"

text \<open>
  \<^verbatim>\<open>getUserChannelProfile\<close>. The first stage is \<^verbatim>\<open>{ $match: username?.toLowerCase() }\<close>:
  the filter is the bare lower-cased name. What the database answers to that stage
  is the parameter \<open>aggregate_match\<close>: the matched users, or an error.
\<close>

definition getUserChannelProfile ::
  "(string \<Rightarrow> user_doc list \<Rightarrow> error + user_doc list)
     \<Rightarrow> string option \<Rightarrow> user_doc option \<Rightarrow> store
     \<Rightarrow> (error + channel_profile list response) \<times> store" where
  "getUserChannelProfile aggregate_match username_param user s =
     (case username_param of
        None \<Rightarrow> (Inl (ApiError 400 ''Username is required''), s)
      | Some un \<Rightarrow>
          if un = [] then (Inl (ApiError 400 ''Username is required''), s)
          else
            (case aggregate_match (toLowerCase un) (users s) of
               Inl err \<Rightarrow> (Inl err, s)
             | Inr matched \<Rightarrow>
                 let channel = map (channel_fields user)
                                 (map (channel_lookups (subscriptions s)) matched)
                 in if channel = [] then (Inl (ApiError 404 ''Channel not found''), s)
                    else (Inr \<lparr>status = 200, cookie_ops = [],
                               json = ApiResponse 200 channel
                                        ''Channel profile fetched successfully''\<rparr>,
                          s)))"

section \<open>The client side of the cookies\<close>

text \<open>
  The cookies a client holds after a response: a set cookie is stored under its name
  (\<^verbatim>\<open>undefined\<close> is written as the text \<^verbatim>\<open>undefined\<close>), a cleared one is dropped.
\<close>

fun apply_cookie_op :: "(string \<rightharpoonup> string) \<Rightarrow> cookie_op \<Rightarrow> (string \<rightharpoonup> string)" where
  "apply_cookie_op jar (SetCookie name v opts) =
     jar(name \<mapsto> (case v of None \<Rightarrow> ''undefined'' | Some t \<Rightarrow> t))"
| "apply_cookie_op jar (ClearCookie name opts) = jar(name := None)"

definition client_cookies :: "(string \<rightharpoonup> string) \<Rightarrow> cookie_op list \<Rightarrow> (string \<rightharpoonup> string)" where
  "client_cookies jar ops = foldl apply_cookie_op jar ops"

fun cookie_flags :: "cookie_op \<Rightarrow> cookie_options" where
  "cookie_flags (SetCookie name v opts) = opts"
| "cookie_flags (ClearCookie name opts) = opts"


section \<open>Example data\<close>

text \<open>A small store and environment on which the handlers are run.\<close>

definition alice :: user_doc where
  "alice = \<lparr>user_id = ''u1'', username = ''alice'', email = Some ''alice@example.com'',
            fullName = Some ''Alice A'', avatar = ''http://img/a.png'', coverImage = [],
            password = Some ''pw-alice'', refreshToken = Some ''refresh-0''\<rparr>"

definition bob :: user_doc where
  "bob = \<lparr>user_id = ''u2'', username = ''bob'', email = Some ''bob@example.com'',
          fullName = Some ''Bob B'', avatar = ''http://img/b.png'', coverImage = [],
          password = Some ''pw-bob'', refreshToken = None\<rparr>"

definition comment1 :: comment_doc where
  "comment1 = \<lparr>comment_id = ''c1'', content = ''first'', video = ''v1'',
               owner = Some ''u1'', createdAt = 100\<rparr>"

definition comment2 :: comment_doc where
  "comment2 = \<lparr>comment_id = ''c2'', content = ''second'', video = ''v1'',
               owner = Some ''u2'', createdAt = 200\<rparr>"

definition comment3 :: comment_doc where
  "comment3 = \<lparr>comment_id = ''c3'', content = ''elsewhere'', video = ''v2'',
               owner = Some ''u1'', createdAt = 300\<rparr>"

definition demo_likes :: "like_doc list" where
  "demo_likes = [\<lparr>like_comment = Some ''c1'', likedBy = ''u2''\<rparr>,
                 \<lparr>like_comment = Some ''c1'', likedBy = ''u1''\<rparr>,
                 \<lparr>like_comment = None, likedBy = ''u1''\<rparr>]"

definition demo_store :: store where
  "demo_store =
     \<lparr>users = [alice, bob],
      videos = [\<lparr>video_id = ''v1''\<rparr>, \<lparr>video_id = ''v2''\<rparr>],
      comments = [comment1, comment2, comment3],
      likes = demo_likes,
      subscriptions = [[(''subscriber'', ''u2''), (''channel'', ''u1'')]],
      uploaded = []\<rparr>"

definition demo_env :: env where
  "demo_env =
     \<lparr>generateAccessToken = (\<lambda>u. ''access-'' @ user_id u),
      generateRefreshToken = (\<lambda>u. ''refresh-'' @ user_id u),
      isPasswordCorrect = (\<lambda>u p. p = password u),
      uploadOnCloudinary =
        (\<lambda>p. case p of None \<Rightarrow> None
              | Some t \<Rightarrow> if t = ''tmp/broken.png'' then None
                          else Some \<lparr>url = ''http://img/'' @ t\<rparr>),
      jwt_verify =
        (\<lambda>t. if t = ''refresh-0'' then Inr (Some ''u1'')
              else Inl (LibraryError ''invalid signature''))\<rparr>"


text \<open>The like clean-up as the comment module stands: \<^verbatim>\<open>Like\<close> is not bound.\<close>

definition Like_unbound :: "oid \<Rightarrow> user_doc option \<Rightarrow> like_doc list \<Rightarrow> error + like_doc list" where
  "Like_unbound commentId user ls = Inl (ReferenceError ''Like is not defined'')"

text \<open>A match stage that answers with the users of that username.\<close>

definition match_username :: "string \<Rightarrow> user_doc list \<Rightarrow> error + user_doc list" where
  "match_username name us = Inr (filter (\<lambda>u. username u = name) us)"

definition files_both :: files where
  "files_both = [(''avatar'', [\<lparr>path = ''tmp/a.png''\<rparr>]),
                 (''coverImage'', [\<lparr>path = ''tmp/broken.png''\<rparr>])]"

definition files_avatar_only :: files where
  "files_avatar_only = [(''avatar'', [\<lparr>path = ''tmp/a.png''\<rparr>])]"

text \<open>\<^verbatim>\<open>jwt.verify\<close> as the user module stands: \<^verbatim>\<open>jwt\<close> is not bound.\<close>

definition jwt_unbound :: "string \<Rightarrow> error + oid option" where
  "jwt_unbound token = Inl (ReferenceError ''jwt is not defined'')"

section \<open>Lemmas on the collections\<close>

lemma Comment_findById_Some:
  "Comment_findById i cs = Some c \<Longrightarrow> comment_id c = i \<and> c \<in> set cs"
  unfolding Comment_findById_def by (induction cs) (auto split: if_splits)

lemma Comment_findByIdAndUpdate_found:
  "Comment_findById i cs = Some c \<Longrightarrow>
     fst (Comment_findByIdAndUpdate i v cs) = Some (c\<lparr>content := v\<rparr>)"
  unfolding Comment_findById_def
  by (induction cs) (auto split: if_splits prod.splits)

lemma Comment_findByIdAndDelete_gone:
  "distinct (map comment_id cs) \<Longrightarrow>
     Comment_findById i (Comment_findByIdAndDelete i cs) = None"
  unfolding Comment_findById_def
  by (induction cs) (auto simp: find_None_iff image_iff)

lemma User_findOne_conflict:
  assumes "u \<in> set us"
      and "username_field = Some (username u) \<or> (\<exists>em. email_field = Some em \<and> email u = Some em)"
  shows "\<exists>existing. User_findOne username_field email_field us = Some existing"
proof -
  from assms have "\<exists>x\<in>set us. Some (username x) = username_field \<or> email x = email_field"
    by auto
  then have "find (\<lambda>x. Some (username x) = username_field \<or> email x = email_field) us \<noteq> None"
    by (auto simp: find_None_iff)
  then show ?thesis by (auto simp: User_findOne_def)
qed

lemma User_findById_append_new:
  "i \<notin> user_id ` set us \<Longrightarrow> user_id u = i \<Longrightarrow> User_findById i (us @ [u]) = Some u"
  unfolding User_findById_def by (induction us) auto

section \<open>Lemmas on the comment listing\<close>






section \<open>Refreshing the tokens\<close>

text \<open>
  C1. The refresh of the tokens is claimed to answer 200 with a new access token and
  a new refresh token, both set as cookies, and to store the new refresh token. On
  the example store, with a refresh token that verifies and equals the stored one,
  the handler stores the new refresh token \<^verbatim>\<open>refresh-u1\<close> but answers without it:
  the object of \<^verbatim>\<open>generateAccessAndRefreshTokens\<close> has no property
  \<^verbatim>\<open>newRefreshToken\<close>, so the cookie and the payload carry \<^verbatim>\<open>undefined\<close>.
\<close>

theorem refreshAccessToken_answers_without_refresh_token:
  "refreshAccessToken demo_env (Some ''refresh-0'') None demo_store =
     (Inr \<lparr>status = 200,
            cookie_ops = [SetCookie ''accessToken'' (Some ''access-u1'') \<lparr>httpOnly = True, secure = True\<rparr>,
                          SetCookie ''refreshToken'' None \<lparr>httpOnly = True, secure = True\<rparr>],
            json = ApiResponse 200 \<lparr>rd_accessToken = Some ''access-u1'', rd_refreshToken = None\<rparr>
                     ''Access token refreshed successfully''\<rparr>,
      demo_store\<lparr>users := [alice\<lparr>refreshToken := Some ''refresh-u1''\<rparr>, bob]\<rparr>)"
  by (simp add: refreshAccessToken_def refresh_try_def js_or_def generateAccessAndRefreshTokens_def
          User_findById_def falsy_def options_def Let_def demo_store_def demo_env_def alice_def bob_def)

text \<open>The same on every input: a refresh that answers never carries a refresh token.\<close>

lemma refreshAccessToken_refresh_token_undefined:
  assumes "refreshAccessToken e cookie_token body_token s = (Inr r, s')"
  shows "\<exists>a. json r = ApiResponse 200 \<lparr>rd_accessToken = a, rd_refreshToken = None\<rparr>
                 ''Access token refreshed successfully''
           \<and> cookie_ops r = [SetCookie ''accessToken'' a options, SetCookie ''refreshToken'' None options]"
  using assms
  by (auto simp: refreshAccessToken_def refresh_try_def generateAccessAndRefreshTokens_def Let_def
           split: if_splits option.splits prod.splits sum.splits)

text \<open>Login reads the same object under the names it has, and answers with both tokens.\<close>

lemma loginUser_returns_refresh_token:
  assumes "loginUser e email_field username_field password_field s = (Inr r, s')"
  shows "\<exists>u a t. json r = ApiResponse 200 \<lparr>ld_user = u, ld_accessToken = Some a, ld_refreshToken = Some t\<rparr>
                 ''User Logged In Successfully''
           \<and> cookie_ops r = [SetCookie ''accessToken'' (Some a) options, SetCookie ''refreshToken'' (Some t) options]"
  using assms
  by (auto simp: loginUser_def generateAccessAndRefreshTokens_def Let_def
           split: if_splits option.splits prod.splits sum.splits)

text \<open>
  With \<^verbatim>\<open>jwt\<close> unbound, as the module stands, the same request ends in the
  \<^verbatim>\<open>catch\<close> block and nothing is stored.
\<close>

lemma refreshAccessToken_jwt_unbound:
  "refreshAccessToken (demo_env\<lparr>jwt_verify := jwt_unbound\<rparr>) (Some ''refresh-0'') None demo_store
     = (Inl (ApiError 401 ''jwt is not defined''), demo_store)"
  by (simp add: refreshAccessToken_def refresh_try_def js_or_def falsy_def jwt_unbound_def)

section \<open>Ownership of comments\<close>




section \<open>Content of comments\<close>

text \<open>
  C3. A creation or an edit whose content is missing or empty fails with the 400
  error and leaves the store as it was. With a non-empty content neither handler
  raises that error; the creation succeeds when the video exists, the edit when the
  comment exists and the requester owns it.
\<close>

theorem comment_content_required:
  "((content_field = None \<or> content_field = Some []) \<longrightarrow>
      addComment new_id now videoId content_field user s
        = (Inl (ApiError 400 ''Content is required''), s)
    \<and> updateComment commentId content_field user s
        = (Inl (ApiError 400 ''content is required''), s))
 \<and> (\<forall>t. content_field = Some t \<and> t \<noteq> [] \<longrightarrow>
      fst (addComment new_id now videoId content_field user s)
        \<noteq> Inl (ApiError 400 ''Content is required'')
    \<and> fst (updateComment commentId content_field user s)
        \<noteq> Inl (ApiError 400 ''content is required'')
    \<and> (Video_findById videoId (videos s) \<noteq> None \<longrightarrow>
          (\<exists>r s'. addComment new_id now videoId content_field user s = (Inr r, s')))
    \<and> ((\<exists>c u. Comment_findById commentId (comments s) = Some c
              \<and> user = Some u \<and> owner c = Some (user_id u)) \<longrightarrow>
          (\<exists>r s'. updateComment commentId content_field user s = (Inr r, s'))))"
proof (intro conjI allI impI)
  assume "content_field = None \<or> content_field = Some []"
  then show "addComment new_id now videoId content_field user s
        = (Inl (ApiError 400 ''Content is required''), s)"
    by (auto simp: addComment_def)
next
  assume "content_field = None \<or> content_field = Some []"
  then show "updateComment commentId content_field user s
        = (Inl (ApiError 400 ''content is required''), s)"
    by (auto simp: updateComment_def)
next
  fix t assume "content_field = Some t \<and> t \<noteq> []"
  then show "fst (addComment new_id now videoId content_field user s)
        \<noteq> Inl (ApiError 400 ''Content is required'')"
    by (auto simp: addComment_def Comment_create_def split: option.splits)
next
  fix t assume "content_field = Some t \<and> t \<noteq> []"
  then show "fst (updateComment commentId content_field user s)
        \<noteq> Inl (ApiError 400 ''content is required'')"
    by (auto simp: updateComment_def split: option.splits prod.splits)
next
  fix t assume "content_field = Some t \<and> t \<noteq> []"
    and "Video_findById videoId (videos s) \<noteq> None"
  then show "\<exists>r s'. addComment new_id now videoId content_field user s = (Inr r, s')"
    by (auto simp: addComment_def Comment_create_def split: option.splits)
next
  fix t assume t: "content_field = Some t \<and> t \<noteq> []"
    and "\<exists>c u. Comment_findById commentId (comments s) = Some c
              \<and> user = Some u \<and> owner c = Some (user_id u)"
  then obtain c u where c: "Comment_findById commentId (comments s) = Some c"
    and ow: "user = Some u" "owner c = Some (user_id u)" by auto
  from c have "comment_id c = commentId" by (simp add: Comment_findById_Some)
  with Comment_findByIdAndUpdate_found[OF c, of t]
  obtain cs' where "Comment_findByIdAndUpdate (comment_id c) t (comments s)
      = (Some (c\<lparr>content := t\<rparr>), cs')"
    by (cases "Comment_findByIdAndUpdate commentId t (comments s)") auto
  with t c ow show "\<exists>r s'. updateComment commentId content_field user s = (Inr r, s')"
    by (simp add: updateComment_def)
qed

text \<open>On the example store, with empty, missing and non-empty content.\<close>

theorem comment_content_required_witness:
  "addComment ''c9'' 400 ''v1'' (Some []) (Some bob) demo_store
     = (Inl (ApiError 400 ''Content is required''), demo_store)
   \<and> updateComment ''c2'' None (Some bob) demo_store
     = (Inl (ApiError 400 ''content is required''), demo_store)
   \<and> Video_findById ''v1'' (videos demo_store) \<noteq> None
   \<and> (\<exists>r s'. addComment ''c9'' 400 ''v1'' (Some ''hello'') (Some bob) demo_store = (Inr r, s'))
   \<and> Comment_findById ''c2'' (comments demo_store) = Some comment2
   \<and> owner comment2 = Some (user_id bob)
   \<and> (\<exists>r s'. updateComment ''c2'' (Some ''hello'') (Some bob) demo_store = (Inr r, s'))"
proof -
  have v: "Video_findById ''v1'' (videos demo_store) \<noteq> None"
    by (simp add: Video_findById_def demo_store_def)
  have c: "Comment_findById ''c2'' (comments demo_store) = Some comment2"
    by (simp add: Comment_findById_def demo_store_def comment1_def comment2_def)
  have ow: "owner comment2 = Some (user_id bob)" by (simp add: comment2_def bob_def)
  from comment_content_required[of "Some []" "''c9''" 400 "''v1''" "Some bob" demo_store "''c2''"]
  have a: "addComment ''c9'' 400 ''v1'' (Some []) (Some bob) demo_store
     = (Inl (ApiError 400 ''Content is required''), demo_store)" by simp
  from comment_content_required[of None "''c9''" 400 "''v1''" "Some bob" demo_store "''c2''"]
  have b: "updateComment ''c2'' None (Some bob) demo_store
     = (Inl (ApiError 400 ''content is required''), demo_store)" by simp
  from comment_content_required[of "Some ''hello''" "''c9''" 400 "''v1''" "Some bob" demo_store "''c2''"]
    v c ow
  have d: "(\<exists>r s'. addComment ''c9'' 400 ''v1'' (Some ''hello'') (Some bob) demo_store = (Inr r, s'))
      \<and> (\<exists>r s'. updateComment ''c2'' (Some ''hello'') (Some bob) demo_store = (Inr r, s'))"
    by simp
  from a b d v c ow show ?thesis by simp
qed

section \<open>The listing of the comments of a video\<close>



text \<open>The second page of size one of the example store, as the requester \<open>bob\<close> sees it.\<close>

lemma listing_page_two:
  "getVideoComments skip_limit ''v1'' (Some ''2'') (Some ''1'') (Some bob) demo_store
     = (Inr \<lparr>status = 200, cookie_ops = [],
             json = ApiResponse 200
                      [\<lparr>lc_id = ''c1'', lc_content = ''first'', lc_createdAt = 100,
                        lc_likesCount = 2,
                        lc_owner = Some \<lparr>ov_username = ''alice'', ov_fullName = Some ''Alice A''\<rparr>,
                        lc_isLiked = True\<rparr>]
                      ''Comments fetched successfully''\<rparr>, demo_store)"
  by code_simp

section \<open>Logging out twice\<close>

text \<open>
  C5. Logout is claimed to answer 200 with both token cookies cleared and the stored
  refresh token cleared, twice in a row with the same outcome. On the example store
  the logout of \<open>alice\<close> answers 200 and clears both cookies, but the store is the
  one before the request: the update sets the field to \<^verbatim>\<open>undefined\<close>, which
  writes nothing, and the stored refresh token \<^verbatim>\<open>refresh-0\<close> stays.
\<close>

theorem logoutUser_keeps_refresh_token:
  "logoutUser (Some alice) demo_store
     = (Inr \<lparr>status = 200,
             cookie_ops = [ClearCookie ''accessToken'' \<lparr>httpOnly = True, secure = True\<rparr>,
                           ClearCookie ''refreshToken'' \<lparr>httpOnly = True, secure = True\<rparr>],
             json = ApiResponse 200 () ''User Logged Out Successfully''\<rparr>,
        demo_store)
   \<and> map_option refreshToken (User_findById ''u1'' (users demo_store))
       = Some (Some ''refresh-0'')"
  by (simp add: logoutUser_def User_findByIdAndUpdate_refreshToken_def options_def
        User_findById_def alice_def demo_store_def)

text \<open>
  What holds of the logout on every store: it answers 200, clears both cookies and
  leaves the store as it is, so a second logout gives the same response and the same
  store, and a client that applies the cookie operations twice holds the cookies it
  holds after applying them once.
\<close>

lemma logoutUser_twice:
  "\<exists>r. logoutUser (Some u) s = (Inr r, s)
       \<and> status r = 200
       \<and> cookie_ops r = [ClearCookie ''accessToken'' \<lparr>httpOnly = True, secure = True\<rparr>,
                          ClearCookie ''refreshToken'' \<lparr>httpOnly = True, secure = True\<rparr>]
       \<and> client_cookies (client_cookies jar (cookie_ops r)) (cookie_ops r)
           = client_cookies jar (cookie_ops r)
       \<and> client_cookies jar (cookie_ops r) ''accessToken'' = None
       \<and> client_cookies jar (cookie_ops r) ''refreshToken'' = None"
  by (simp add: logoutUser_def User_findByIdAndUpdate_refreshToken_def options_def
        client_cookies_def)

section \<open>Registration against an existing user\<close>

text \<open>
  C6, as amended. A registration whose four fields pass the blank-field check and
  whose username or email is the one of a stored user fails with the 409 error, and
  the store is the one before the request: no user is created and nothing has been
  handed to the image host.
\<close>

theorem register_conflict_rejected:
  assumes fields: "\<not> list_ex blank [fullName_field, email_field, username_field, password_field]"
      and stored: "u \<in> set (users s)"
      and same: "username_field = Some (username u)
                   \<or> (\<exists>em. email_field = Some em \<and> email u = Some em)"
  shows "registerUser e new_id fullName_field email_field username_field password_field fs s
           = (Inl (ApiError 409 ''User already exists''), s)"
proof -
  from User_findOne_conflict[OF stored same]
  obtain existing where "User_findOne username_field email_field (users s) = Some existing" ..
  with fields show ?thesis by (simp add: registerUser_def)
qed

text \<open>
  C6 as stated fails: the blank-field check comes first, so a registration with the
  username of a stored user and a blank full name gets the 400 error, not the 409.
\<close>

theorem register_conflict_counterexample:
  "alice \<in> set (users demo_store)
   \<and> Some ''alice'' = Some (username alice)
   \<and> registerUser demo_env ''u9'' (Some '' '') (Some ''new@example.com'') (Some ''alice'')
        (Some ''pw'') (Some files_both) demo_store
       = (Inl (ApiError 400 ''All fields are required''), demo_store)"
  by (simp add: registerUser_def blank_def trim_def is_space_def demo_store_def alice_def)

text \<open>On the example store: a new username with the email of \<open>alice\<close>.\<close>

theorem register_conflict_rejected_witness:
  "\<not> list_ex blank [Some ''Carol C'', Some ''alice@example.com'', Some ''Carol'', Some ''pw'']
   \<and> alice \<in> set (users demo_store)
   \<and> email alice = Some ''alice@example.com''
   \<and> registerUser demo_env ''u9'' (Some ''Carol C'') (Some ''alice@example.com'') (Some ''Carol'')
        (Some ''pw'') (Some files_both) demo_store
       = (Inl (ApiError 409 ''User already exists''), demo_store)"
proof -
  have b: "\<not> list_ex blank [Some ''Carol C'', Some ''alice@example.com'', Some ''Carol'', Some ''pw'']"
    by (simp add: blank_def trim_def is_space_def)
  have m: "alice \<in> set (users demo_store)" by (simp add: demo_store_def)
  have em: "email alice = Some ''alice@example.com''" by (simp add: alice_def)
  then have same: "Some ''Carol'' = Some (username alice)
       \<or> (\<exists>em. Some ''alice@example.com'' = Some em \<and> email alice = Some em)" by simp
  from register_conflict_rejected[OF b m same, of demo_env "''u9''" "Some files_both"] b m em
  show ?thesis by simp
qed

section \<open>Flags of the token cookies\<close>

text \<open>
  C7. Every response of login, token refresh and logout carries two cookie
  operations, and each of them has the options httpOnly and secure switched on.
\<close>

theorem token_cookies_httpOnly_secure:
  "(loginUser e email_field username_field password_field s = (Inr r1, s1) \<longrightarrow>
      length (cookie_ops r1) = 2
    \<and> (\<forall>c\<in>set (cookie_ops r1). httpOnly (cookie_flags c) \<and> secure (cookie_flags c)))
 \<and> (refreshAccessToken e cookie_token body_token s = (Inr r2, s2) \<longrightarrow>
      length (cookie_ops r2) = 2
    \<and> (\<forall>c\<in>set (cookie_ops r2). httpOnly (cookie_flags c) \<and> secure (cookie_flags c)))
 \<and> (logoutUser user s = (Inr r3, s3) \<longrightarrow>
      length (cookie_ops r3) = 2
    \<and> (\<forall>c\<in>set (cookie_ops r3). httpOnly (cookie_flags c) \<and> secure (cookie_flags c)))"
proof (intro conjI impI)
  assume "loginUser e email_field username_field password_field s = (Inr r1, s1)"
  then have "\<exists>a b. cookie_ops r1 = [SetCookie ''accessToken'' a options, SetCookie ''refreshToken'' b options]"
    by (auto simp: loginUser_def Let_def split: if_splits option.splits prod.splits sum.splits)
  then show "length (cookie_ops r1) = 2"
    and "\<forall>c\<in>set (cookie_ops r1). httpOnly (cookie_flags c) \<and> secure (cookie_flags c)"
    by (auto simp: options_def)
next
  assume "refreshAccessToken e cookie_token body_token s = (Inr r2, s2)"
  then have "\<exists>a b. cookie_ops r2 = [SetCookie ''accessToken'' a options, SetCookie ''refreshToken'' b options]"
    by (auto simp: refreshAccessToken_def refresh_try_def Let_def
             split: if_splits option.splits prod.splits sum.splits)
  then show "length (cookie_ops r2) = 2"
    and "\<forall>c\<in>set (cookie_ops r2). httpOnly (cookie_flags c) \<and> secure (cookie_flags c)"
    by (auto simp: options_def)
next
  assume "logoutUser user s = (Inr r3, s3)"
  then have "cookie_ops r3 = [ClearCookie ''accessToken'' options, ClearCookie ''refreshToken'' options]"
    by (auto simp: logoutUser_def split: option.splits)
  then show "length (cookie_ops r3) = 2"
    and "\<forall>c\<in>set (cookie_ops r3). httpOnly (cookie_flags c) \<and> secure (cookie_flags c)"
    by (auto simp: options_def)
qed

text \<open>On the example store: a login, a refresh and a logout of \<open>alice\<close>.\<close>

theorem token_cookies_httpOnly_secure_witness:
  "\<exists>r1 s1 r2 s2 r3 s3.
      loginUser demo_env None (Some ''alice'') (Some ''pw-alice'') demo_store = (Inr r1, s1)
    \<and> map cookie_flags (cookie_ops r1)
        = [\<lparr>httpOnly = True, secure = True\<rparr>, \<lparr>httpOnly = True, secure = True\<rparr>]
    \<and> refreshAccessToken demo_env (Some ''refresh-0'') None demo_store = (Inr r2, s2)
    \<and> map cookie_flags (cookie_ops r2)
        = [\<lparr>httpOnly = True, secure = True\<rparr>, \<lparr>httpOnly = True, secure = True\<rparr>]
    \<and> logoutUser (Some alice) demo_store = (Inr r3, s3)
    \<and> map cookie_flags (cookie_ops r3)
        = [\<lparr>httpOnly = True, secure = True\<rparr>, \<lparr>httpOnly = True, secure = True\<rparr>]"
proof -
  obtain r1 s1 where l: "loginUser demo_env None (Some ''alice'') (Some ''pw-alice'') demo_store = (Inr r1, s1)"
    by (simp add: loginUser_def generateAccessAndRefreshTokens_def User_findOne_def User_findById_def
          falsy_def Let_def demo_store_def demo_env_def alice_def bob_def)
  obtain r2 s2 where r: "refreshAccessToken demo_env (Some ''refresh-0'') None demo_store = (Inr r2, s2)"
    by (simp add: refreshAccessToken_def refresh_try_def js_or_def generateAccessAndRefreshTokens_def
          User_findById_def falsy_def Let_def demo_store_def demo_env_def alice_def bob_def)
  obtain r3 s3 where o: "logoutUser (Some alice) demo_store = (Inr r3, s3)"
    by (simp add: logoutUser_def)
  have flags: "length cs = 2 \<Longrightarrow> \<forall>c\<in>set cs. httpOnly (cookie_flags c) \<and> secure (cookie_flags c)
      \<Longrightarrow> map cookie_flags cs = [\<lparr>httpOnly = True, secure = True\<rparr>, \<lparr>httpOnly = True, secure = True\<rparr>]"
    for cs :: "cookie_op list"
    by (cases cs; cases "tl cs") auto
  from token_cookies_httpOnly_secure[of demo_env None "Some ''alice''" "Some ''pw-alice''" demo_store
      r1 s1 "Some ''refresh-0''" None r2 s2 "Some alice" r3 s3] l r o
  have "map cookie_flags (cookie_ops r1) = [\<lparr>httpOnly = True, secure = True\<rparr>, \<lparr>httpOnly = True, secure = True\<rparr>]"
       "map cookie_flags (cookie_ops r2) = [\<lparr>httpOnly = True, secure = True\<rparr>, \<lparr>httpOnly = True, secure = True\<rparr>]"
       "map cookie_flags (cookie_ops r3) = [\<lparr>httpOnly = True, secure = True\<rparr>, \<lparr>httpOnly = True, secure = True\<rparr>]"
    by (simp_all add: flags)
  with l r o show ?thesis
    by (intro exI[of _ r1] exI[of _ s1] exI[of _ r2] exI[of _ s2] exI[of _ r3] exI[of _ s3]) simp
qed

section \<open>Registration without a cover image\<close>

text \<open>
  C8. A registration whose files have no entry \<^verbatim>\<open>coverImage\<close> (or that has no
  files at all) fails and leaves the store as it was. When the fields and the avatar
  entry are in order, the failure is the TypeError of indexing the absent entry,
  raised before the avatar check. With a cover image entry whose upload fails, the
  registration succeeds and the created user has the empty string as cover image.
\<close>

theorem register_needs_coverImage_entry:
  "((case fs of None \<Rightarrow> True | Some entries \<Rightarrow> map_of entries ''coverImage'' = None) \<longrightarrow>
      (\<exists>err. registerUser e new_id fullName_field email_field username_field password_field fs s
                = (Inl err, s)))
 \<and> (\<not> list_ex blank [fullName_field, email_field, username_field, password_field]
      \<and> User_findOne username_field email_field (users s) = None
      \<and> map_of entries ''avatar'' = Some (fa # ra)
      \<and> map_of entries ''coverImage'' = None \<longrightarrow>
      registerUser e new_id fullName_field email_field username_field password_field
          (Some entries) s
        = (Inl (TypeError ''Cannot read properties of undefined (reading 0)''), s))
 \<and> (\<not> list_ex blank [fullName_field, email_field, Some name, password_field]
      \<and> User_findOne (Some name) email_field (users s) = None
      \<and> map_of entries_b ''avatar'' = Some (fa # ra) \<and> path fa \<noteq> []
      \<and> map_of entries_b ''coverImage'' = Some (fc # rc)
      \<and> uploadOnCloudinary e (Some (path fa)) = Some av
      \<and> uploadOnCloudinary e (Some (path fc)) = None
      \<and> new_id \<notin> user_id ` set (users s) \<longrightarrow>
      (\<exists>r created.
          registerUser e new_id fullName_field email_field (Some name) password_field
              (Some entries_b) s
            = (Inr r, s\<lparr>uploaded := uploaded s @ [Some (path fa), Some (path fc)],
                        users := users s @ [created]\<rparr>)
        \<and> status r = 201
        \<and> json r = ApiResponse 200 (select_public created) ''User Registered Successfully''
        \<and> user_id created = new_id
        \<and> coverImage created = []))"
proof (intro conjI impI)
  assume "case fs of None \<Rightarrow> True | Some entries \<Rightarrow> map_of entries ''coverImage'' = None"
  then show "\<exists>err. registerUser e new_id fullName_field email_field username_field
                 password_field fs s = (Inl err, s)"
    by (cases fs)
       (auto simp: registerUser_def first_path_def falsy_def split: option.splits list.splits)
next
  assume "\<not> list_ex blank [fullName_field, email_field, username_field, password_field]
      \<and> User_findOne username_field email_field (users s) = None
      \<and> map_of entries ''avatar'' = Some (fa # ra)
      \<and> map_of entries ''coverImage'' = None"
  then show "registerUser e new_id fullName_field email_field username_field password_field
          (Some entries) s
        = (Inl (TypeError ''Cannot read properties of undefined (reading 0)''), s)"
    by (simp add: registerUser_def first_path_def)
next
  assume h: "\<not> list_ex blank [fullName_field, email_field, Some name, password_field]
      \<and> User_findOne (Some name) email_field (users s) = None
      \<and> map_of entries_b ''avatar'' = Some (fa # ra) \<and> path fa \<noteq> []
      \<and> map_of entries_b ''coverImage'' = Some (fc # rc)
      \<and> uploadOnCloudinary e (Some (path fa)) = Some av
      \<and> uploadOnCloudinary e (Some (path fc)) = None
      \<and> new_id \<notin> user_id ` set (users s)"
  define created where "created =
     \<lparr>user_id = new_id, username = toLowerCase name, email = email_field,
      fullName = fullName_field, avatar = url av, coverImage = [],
      password = password_field, refreshToken = None\<rparr>"
  have f: "User_findById new_id (users s @ [created]) = Some created"
    using h by (intro User_findById_append_new) (simp_all add: created_def)
  have "registerUser e new_id fullName_field email_field (Some name) password_field
              (Some entries_b) s
          = (Inr \<lparr>status = 201, cookie_ops = [],
                  json = ApiResponse 200 (select_public created) ''User Registered Successfully''\<rparr>,
             s\<lparr>uploaded := uploaded s @ [Some (path fa), Some (path fc)],
                        users := users s @ [created]\<rparr>)"
    using h f by (simp add: registerUser_def first_path_def falsy_def Let_def created_def)
  moreover have "user_id created = new_id" "coverImage created = []"
    by (simp_all add: created_def)
  ultimately show "\<exists>r created.
          registerUser e new_id fullName_field email_field (Some name) password_field
              (Some entries_b) s
            = (Inr r, s\<lparr>uploaded := uploaded s @ [Some (path fa), Some (path fc)],
                        users := users s @ [created]\<rparr>)
        \<and> status r = 201
        \<and> json r = ApiResponse 200 (select_public created) ''User Registered Successfully''
        \<and> user_id created = new_id
        \<and> coverImage created = []"
    by (intro exI[of _ "\<lparr>status = 201, cookie_ops = [],
                  json = ApiResponse 200 (select_public created) ''User Registered Successfully''\<rparr>"]
              exI[of _ created]) simp
qed

text \<open>On the example store: files without cover image entry, no files, and a cover image whose upload fails.\<close>

theorem register_needs_coverImage_entry_witness:
  "map_of files_avatar_only ''coverImage'' = None
   \<and> registerUser demo_env ''u9'' (Some ''Carol C'') (Some ''carol@example.com'') (Some ''Carol'')
        (Some ''pw'') (Some files_avatar_only) demo_store
       = (Inl (TypeError ''Cannot read properties of undefined (reading 0)''), demo_store)
   \<and> (\<exists>err. registerUser demo_env ''u9'' (Some ''Carol C'') (Some ''carol@example.com'')
          (Some ''Carol'') (Some ''pw'') None demo_store = (Inl err, demo_store))
   \<and> uploadOnCloudinary demo_env (Some ''tmp/broken.png'') = None
   \<and> (\<exists>r created.
          registerUser demo_env ''u9'' (Some ''Carol C'') (Some ''carol@example.com'')
            (Some ''Carol'') (Some ''pw'') (Some files_both) demo_store
            = (Inr r, demo_store\<lparr>uploaded := [Some ''tmp/a.png'', Some ''tmp/broken.png''],
                                 users := [alice, bob, created]\<rparr>)
        \<and> status r = 201 \<and> user_id created = ''u9'' \<and> coverImage created = [])"
proof -
  have b: "\<not> list_ex blank [Some ''Carol C'', Some ''carol@example.com'', Some ''Carol'', Some ''pw'']"
    by (simp add: blank_def trim_def is_space_def)
  have n: "User_findOne (Some ''Carol'') (Some ''carol@example.com'') (users demo_store) = None"
    by (simp add: User_findOne_def demo_store_def alice_def bob_def)
  have a1: "map_of files_avatar_only ''avatar'' = Some (\<lparr>path = ''tmp/a.png''\<rparr> # [])"
    and c1: "map_of files_avatar_only ''coverImage'' = None"
    by (simp_all add: files_avatar_only_def)
  have a2: "map_of files_both ''avatar'' = Some (\<lparr>path = ''tmp/a.png''\<rparr> # [])"
    and c2: "map_of files_both ''coverImage'' = Some (\<lparr>path = ''tmp/broken.png''\<rparr> # [])"
    by (simp_all add: files_both_def)
  have u1: "uploadOnCloudinary demo_env (Some ''tmp/a.png'') = Some \<lparr>url = ''http://img/tmp/a.png''\<rparr>"
    and u2: "uploadOnCloudinary demo_env (Some ''tmp/broken.png'') = None"
    by (simp_all add: demo_env_def)
  have fresh: "''u9'' \<notin> user_id ` set (users demo_store)"
    by (simp add: demo_store_def alice_def bob_def)
  have us: "users demo_store = [alice, bob]" and up: "uploaded demo_store = []"
    by (simp_all add: demo_store_def)
  note inst = register_needs_coverImage_entry[where e = demo_env and new_id = "''u9''"
      and fullName_field = "Some ''Carol C''" and email_field = "Some ''carol@example.com''"
      and password_field = "Some ''pw''" and s = demo_store
      and fa = "\<lparr>path = ''tmp/a.png''\<rparr>" and ra = "[]"
      and fc = "\<lparr>path = ''tmp/broken.png''\<rparr>" and rc = "[]"
      and av = "\<lparr>url = ''http://img/tmp/a.png''\<rparr>"
      and name = "''Carol''" and username_field = "Some ''Carol''"
      and entries = files_avatar_only and entries_b = files_both]
  from inst[where fs = None]
  have p1: "\<exists>err. registerUser demo_env ''u9'' (Some ''Carol C'') (Some ''carol@example.com'')
          (Some ''Carol'') (Some ''pw'') None demo_store = (Inl err, demo_store)"
    by simp
  from inst[where fs = None] b n a1 c1
  have p2: "registerUser demo_env ''u9'' (Some ''Carol C'') (Some ''carol@example.com'') (Some ''Carol'')
        (Some ''pw'') (Some files_avatar_only) demo_store
       = (Inl (TypeError ''Cannot read properties of undefined (reading 0)''), demo_store)"
    by simp
  from inst[where fs = None] b n a2 c2 u1 u2 fresh
  have p3: "\<exists>r created.
          registerUser demo_env ''u9'' (Some ''Carol C'') (Some ''carol@example.com'')
            (Some ''Carol'') (Some ''pw'') (Some files_both) demo_store
            = (Inr r, demo_store\<lparr>uploaded := uploaded demo_store @ [Some ''tmp/a.png'', Some ''tmp/broken.png''],
                                 users := users demo_store @ [created]\<rparr>)
        \<and> status r = 201 \<and> user_id created = ''u9'' \<and> coverImage created = []"
    by simp blast
  from p1 p2 p3 c1 u2 show ?thesis by (simp add: us up)
qed

section \<open>Deleting a comment when the like clean-up fails\<close>

text \<open>
  C9. When the owner deletes an existing comment, the answer is 200 with the comment
  identifier and the comment is gone from the collection, whatever the like
  clean-up does; when the clean-up throws, the stored likes are the ones from before
  the request.
\<close>

theorem delete_comment_despite_like_cleanup:
  assumes found: "Comment_findById commentId (comments s) = Some c"
      and own: "owner c = Some (user_id u)"
      and ids: "distinct (map comment_id (comments s))"
  shows "\<exists>s'. deleteComment Like_deleteMany commentId (Some u) s
               = (Inr \<lparr>status = 200, cookie_ops = [],
                       json = ApiResponse 200 commentId ''Comment deleted successfully''\<rparr>, s')
             \<and> Comment_findById commentId (comments s') = None
             \<and> (\<forall>err. Like_deleteMany commentId (Some u) (likes s) = Inl err
                    \<longrightarrow> likes s' = likes s)"
  using found own Comment_findByIdAndDelete_gone[OF ids, of commentId]
  by (auto simp: deleteComment_def Let_def split: sum.splits)

text \<open>On the example store, with the like clean-up of the module as it stands.\<close>

theorem delete_comment_despite_like_cleanup_witness:
  "Comment_findById ''c1'' (comments demo_store) = Some comment1
   \<and> owner comment1 = Some (user_id alice)
   \<and> distinct (map comment_id (comments demo_store))
   \<and> Like_unbound ''c1'' (Some alice) (likes demo_store) = Inl (ReferenceError ''Like is not defined'')
   \<and> (\<exists>s'. deleteComment Like_unbound ''c1'' (Some alice) demo_store
               = (Inr \<lparr>status = 200, cookie_ops = [],
                       json = ApiResponse 200 ''c1'' ''Comment deleted successfully''\<rparr>, s')
           \<and> Comment_findById ''c1'' (comments s') = None
           \<and> likes s' = demo_likes)"
proof -
  have f: "Comment_findById ''c1'' (comments demo_store) = Some comment1"
    by (simp add: Comment_findById_def demo_store_def comment1_def)
  have ow: "owner comment1 = Some (user_id alice)" by (simp add: comment1_def alice_def)
  have d: "distinct (map comment_id (comments demo_store))"
    by (simp add: demo_store_def comment1_def comment2_def comment3_def)
  have l: "Like_unbound ''c1'' (Some alice) (likes demo_store) = Inl (ReferenceError ''Like is not defined'')"
    by (simp add: Like_unbound_def)
  have ls: "likes demo_store = demo_likes" by (simp add: demo_store_def)
  from delete_comment_despite_like_cleanup[OF f ow d, of Like_unbound] l ls f ow d
  show ?thesis by auto
qed

section \<open>The subscriber counts of a channel profile\<close>

text \<open>
  C10. In every profile a channel-profile request returns, the number of subscribers
  and the number of subscribed-to channels are equal: both come from the same
  look-up of the subscriptions on the field \<^verbatim>\<open>channel\<close>.
\<close>

theorem channel_profile_totals_equal:
  assumes "getUserChannelProfile aggregate_match username_param user s = (Inr r, s')"
      and "json r = ApiResponse code channel msg"
      and "p \<in> set channel"
  shows "totalSubscribers p = totalSubscribedTo p"
  using assms
  by (auto simp: getUserChannelProfile_def channel_fields_def channel_lookups_def Let_def
           split: option.splits if_splits sum.splits)

text \<open>On the example store, with a match stage that answers with the users of that name.\<close>

theorem channel_profile_totals_equal_witness:
  "\<exists>r p. getUserChannelProfile match_username (Some ''Alice'') (Some bob) demo_store = (Inr r, demo_store)
      \<and> json r = ApiResponse 200 [p] ''Channel profile fetched successfully''
      \<and> p \<in> set [p]
      \<and> cp_username p = ''alice''
      \<and> totalSubscribers p = 1
      \<and> totalSubscribers p = totalSubscribedTo p"
proof -
  define p where "p = \<lparr>cp_id = ''u1'', cp_fullName = Some ''Alice A'',
                cp_username = ''alice'', cp_avatar = ''http://img/a.png'',
                cp_coverImage = [], totalSubscribers = 1,
                totalSubscribedTo = 1, isSubscribed = False\<rparr>"
  define r :: "channel_profile list response" where "r = \<lparr>status = 200, cookie_ops = [],
         json = ApiResponse 200 [p] ''Channel profile fetched successfully''\<rparr>"
  have lc: "toLowerCase ''Alice'' = ''alice''" by code_simp
  have g: "getUserChannelProfile match_username (Some ''Alice'') (Some bob) demo_store = (Inr r, demo_store)"
    by (simp add: getUserChannelProfile_def match_username_def lc channel_fields_def
          channel_lookups_def lookup_subscriptions_def List.map_filter_def Let_def r_def p_def
          demo_store_def alice_def bob_def)
  have j: "json r = ApiResponse 200 [p] ''Channel profile fetched successfully''" by (simp add: r_def)
  have m: "p \<in> set [p]" by simp
  from channel_profile_totals_equal[OF g j m] have "totalSubscribers p = totalSubscribedTo p" .
  moreover have "cp_username p = ''alice''" "totalSubscribers p = 1" by (simp_all add: p_def)
  ultimately show ?thesis using g j by (intro exI[of _ r] exI[of _ p]) simp
qed

end
